theory Spec2Isabelle
  imports Main
begin

section \<open>Errors, resources and the external collaborators\<close>

text \<open>
  The file \<^verbatim>\<open>internal/database/mysql.go\<close> talks to three external collaborators: the SQL
  driver (\<^verbatim>\<open>sql.Open\<close>, \<^verbatim>\<open>db.Ping\<close>, \<^verbatim>\<open>db.Close\<close>), the migration library
  (\<^verbatim>\<open>mysqlMigrator.Migrate\<close>) and the container runtime (\<^verbatim>\<open>dockertest\<close>). None of them is
  part of the file. Their outcomes are parameters of the model: an environment gives, for
  every moment of the run, the error (or \<open>None\<close>) each external call reports. What the
  code of the file does with these outcomes is what is modelled and verified.
\<close>

datatype error = Error string

type_synonym db_handle = nat
type_synonym resource = nat

text \<open>Every call that leaves the file is recorded, in the order in which it is made.\<close>

text \<open>The options of \<^verbatim>\<open>pool.RunWithOptions\<close> that the file sets.\<close>

record RunOptions =
  Repository :: string
  Tag :: string
  Env :: "string list"

datatype call =
    CallOpen string string
  | CallPing db_handle
  | CallMigrate db_handle
  | CallDBClose db_handle
  | CallNewPool string
  | CallRunWithOptions RunOptions
  | CallResourceClose resource

record world =
  history :: "call list"
  open_dbs :: "db_handle set"
  instances :: "resource set"
  next_db :: db_handle
  next_resource :: resource

record env =
  sql_open_err :: "world \<Rightarrow> string \<Rightarrow> string \<Rightarrow> error option"
  ping_err :: "world \<Rightarrow> db_handle \<Rightarrow> error option"
  migrate_err :: "world \<Rightarrow> db_handle \<Rightarrow> error option"
  db_close_err :: "world \<Rightarrow> db_handle \<Rightarrow> error option"
  resource_close_err :: "world \<Rightarrow> resource \<Rightarrow> error option"
  new_pool_err :: "world \<Rightarrow> string \<Rightarrow> error option"
  run_err :: "world \<Rightarrow> RunOptions \<Rightarrow> error option"
  get_port :: "resource \<Rightarrow> string \<Rightarrow> string"
  testing_short :: bool
  docker_enabled :: bool
  retry_budget :: nat
  deadline_err :: error

definition logged :: "call \<Rightarrow> world \<Rightarrow> world" where
  "logged c w = w\<lparr>history := history w @ [c]\<rparr>"

text \<open>\<^verbatim>\<open>sql.Open(driver, dsn)\<close>: an error, or a fresh handle that is open from now on.\<close>

definition sql_Open :: "env \<Rightarrow> string \<Rightarrow> string \<Rightarrow> world \<Rightarrow> (error + db_handle) \<times> world" where
  "sql_Open e drv d w =
     (case sql_open_err e w drv d of
        Some err \<Rightarrow> (Inl err, logged (CallOpen drv d) w)
      | None \<Rightarrow>
          (Inr (next_db w),
           logged (CallOpen drv d) (w\<lparr>open_dbs := insert (next_db w) (open_dbs w),
                                  next_db := Suc (next_db w)\<rparr>)))"

definition db_Ping :: "env \<Rightarrow> db_handle \<Rightarrow> world \<Rightarrow> error option \<times> world" where
  "db_Ping e db w = (ping_err e w db, logged (CallPing db) w)"

text \<open>
  \<^verbatim>\<open>mysqlMigrator.Migrate(db)\<close> as \<^verbatim>\<open>Connect\<close> sees it: a call that reports an error or
  not. The runner's own algorithm is the subject of the last section.
\<close>

definition mysqlMigrator_Migrate :: "env \<Rightarrow> db_handle \<Rightarrow> world \<Rightarrow> error option \<times> world" where
  "mysqlMigrator_Migrate e db w = (migrate_err e w db, logged (CallMigrate db) w)"

text \<open>A handle or an instance counts as released once its \<^verbatim>\<open>Close\<close> has been called.\<close>

definition db_Close :: "env \<Rightarrow> db_handle \<Rightarrow> world \<Rightarrow> error option \<times> world" where
  "db_Close e db w =
     (db_close_err e w db, logged (CallDBClose db) (w\<lparr>open_dbs := open_dbs w - {db}\<rparr>))"

definition Resource_Close :: "env \<Rightarrow> resource \<Rightarrow> world \<Rightarrow> error option \<times> world" where
  "Resource_Close e r w =
     (resource_close_err e w r,
      logged (CallResourceClose r) (w\<lparr>instances := instances w - {r}\<rparr>))"

definition dockertest_NewPool :: "env \<Rightarrow> string \<Rightarrow> world \<Rightarrow> error option \<times> world" where
  "dockertest_NewPool e endpoint w = (new_pool_err e w endpoint, logged (CallNewPool endpoint) w)"

definition pool_RunWithOptions :: "env \<Rightarrow> RunOptions \<Rightarrow> world \<Rightarrow> (error + resource) \<times> world" where
  "pool_RunWithOptions e opts w =
     (case run_err e w opts of
        Some err \<Rightarrow> (Inl err, logged (CallRunWithOptions opts) w)
      | None \<Rightarrow>
          (Inr (next_resource w),
           logged (CallRunWithOptions opts)
             (w\<lparr>instances := insert (next_resource w) (instances w),
                next_resource := Suc (next_resource w)\<rparr>)))"

section \<open>The connection bootstrapper\<close>

text \<open>
  \<^verbatim>\<open>fmt.Sprintf\<close> for the one verb the file uses, \<^verbatim>\<open>%s\<close> with string arguments. Every call
  of the file passes exactly as many arguments as the format has verbs; a missing
  argument prints as Go prints it.
\<close>

fun Sprintf :: "string \<Rightarrow> string list \<Rightarrow> string" where
  "Sprintf [] args = []"
| "Sprintf [c] args = [c]"
| "Sprintf (c # d # fmt) args =
     (if c = CHR ''%'' \<and> d = CHR ''s''
      then (case args of
              [] \<Rightarrow> ''%!s(MISSING)'' @ Sprintf fmt []
            | a # rest \<Rightarrow> a @ Sprintf fmt rest)
      else c # Sprintf (d # fmt) args)"

datatype logger = NopLogger | Logger nat

record mysql =
  dsn :: string
  logger :: logger

definition mysqlConnection :: "logger \<Rightarrow> string \<Rightarrow> string \<Rightarrow> string \<Rightarrow> string \<Rightarrow> mysql" where
  "mysqlConnection lg user pass address database =
     \<lparr>dsn = Sprintf ''%s:%s@%s/%s?%s''
              [user, pass, address, database,
               ''timeout=30s&tls=false&charset=utf8mb4&parseTime=true&sql_mode=ALLOW_INVALID_DATES''],
      logger = lg\<rparr>"

definition Connect :: "env \<Rightarrow> mysql \<Rightarrow> world \<Rightarrow> (error + db_handle) \<times> world" where
  "Connect e my w =
     (case sql_Open e ''mysql'' (dsn my) w of
        (Inl err, w1) \<Rightarrow> (Inl err, w1)
      | (Inr db, w1) \<Rightarrow>
          (case db_Ping e db w1 of
             (Some err, w2) \<Rightarrow> (Inl err, w2)
           | (None, w2) \<Rightarrow>
               (case mysqlMigrator_Migrate e db w2 of
                  (Some err, w3) \<Rightarrow> (Inl err, w3)
                | (None, w3) \<Rightarrow> (Inr db, w3))))"

text \<open>
  The options of a connection string, read back: the text after the first \<^verbatim>\<open>?\<close> is cut at
  every \<^verbatim>\<open>&\<close>, and each piece at its first \<^verbatim>\<open>=\<close>.
\<close>

fun split_on :: "char \<Rightarrow> string \<Rightarrow> string list" where
  "split_on sep [] = [[]]"
| "split_on sep (c # cs) =
     (if c = sep then [] # split_on sep cs
      else (case split_on sep cs of
              [] \<Rightarrow> [[c]]
            | p # ps \<Rightarrow> (c # p) # ps))"

definition key_value :: "string \<Rightarrow> string \<times> string" where
  "key_value s = (takeWhile (\<lambda>c. c \<noteq> CHR ''='') s, drop 1 (dropWhile (\<lambda>c. c \<noteq> CHR ''='') s))"

definition dsn_options :: "string \<Rightarrow> (string \<times> string) list" where
  "dsn_options s = map key_value (split_on CHR ''&'' s)"

section \<open>The test resource and the ephemeral provider\<close>

record TestMySQLDB =
  DB :: db_handle
  container :: resource

text \<open>\<^verbatim>\<open>r.container.Close()\<close> is a statement: what it returns is dropped.\<close>

definition TestMySQLDB_Close :: "env \<Rightarrow> TestMySQLDB \<Rightarrow> world \<Rightarrow> error option \<times> world" where
  "TestMySQLDB_Close e r w =
     (case Resource_Close e (container r) w of
        (_, w1) \<Rightarrow> db_Close e (DB r) w1)"

text \<open>
  The function handed to \<^verbatim>\<open>pool.Retry\<close>: open, and with the handle open, ping; the deferred
  \<^verbatim>\<open>db.Close()\<close> runs once the result of the ping is known.
\<close>

definition probe :: "env \<Rightarrow> string \<Rightarrow> world \<Rightarrow> error option \<times> world" where
  "probe e d w =
     (case sql_Open e ''mysql'' d w of
        (Inl err, w1) \<Rightarrow> (Some err, w1)
      | (Inr db, w1) \<Rightarrow>
          (case db_Ping e db w1 of
             (res, w2) \<Rightarrow> (case db_Close e db w2 of (_, w3) \<Rightarrow> (res, w3))))"

text \<open>
  Modelled from the spec: \<^verbatim>\<open>pool.Retry\<close> belongs to the container library and is not in the
  file. The spec describes it as a bounded retry loop that runs the probe until it
  succeeds or the retry budget is exhausted; the budget and the error of an exhausted
  budget come from the environment.
\<close>

fun Retry :: "nat \<Rightarrow> error \<Rightarrow> (world \<Rightarrow> error option \<times> world) \<Rightarrow> world \<Rightarrow> error option \<times> world" where
  "Retry 0 dl op w = (Some dl, w)"
| "Retry (Suc n) dl op w =
     (case op w of
        (None, w1) \<Rightarrow> (None, w1)
      | (Some err, w1) \<Rightarrow> Retry n dl op w1)"

text \<open>\<^verbatim>\<open>t.Skip\<close> and \<^verbatim>\<open>t.Fatal\<close> end the calling test at once: nothing after them runs.\<close>

datatype outcome = Skipped string | Fatal error | Returned TestMySQLDB

definition CreateTestMySQLDB :: "env \<Rightarrow> world \<Rightarrow> outcome \<times> world" where
  "CreateTestMySQLDB e w =
     (if testing_short e then (Skipped ''-short flag enabled'', w)
      else if \<not> docker_enabled e then (Skipped ''Docker not enabled'', w)
      else
        (case dockertest_NewPool e [] w of
           (Some err, w1) \<Rightarrow> (Fatal err, w1)
         | (None, w1) \<Rightarrow>
             (case pool_RunWithOptions e
                     \<lparr>Repository = ''mysql'', Tag = ''8'',
                      Env = [''MYSQL_USER=moov'', ''MYSQL_PASSWORD=secret'',
                             ''MYSQL_ROOT_PASSWORD=secret'', ''MYSQL_DATABASE=ofac'']\<rparr> w1 of
                (Inl err, w2) \<Rightarrow> (Fatal err, w2)
              | (Inr res, w2) \<Rightarrow>
                  (case Retry (retry_budget e) (deadline_err e)
                          (probe e (Sprintf ''moov:secret@tcp(localhost:%s)/ofac'' [get_port e res ''3306/tcp''])) w2 of
                     (Some err, w3) \<Rightarrow>
                       (case Resource_Close e res w3 of (_, w4) \<Rightarrow> (Fatal err, w4))
                   | (None, w3) \<Rightarrow>
                       (case Connect e
                               (mysqlConnection NopLogger ''moov'' ''secret''
                                  (Sprintf ''tcp(localhost:%s)'' [get_port e res ''3306/tcp'']) ''ofac'') w3 of
                          (Inl err, w4) \<Rightarrow> (Fatal err, w4)
                        | (Inr db, w4) \<Rightarrow> (Returned \<lparr>DB = db, container = res\<rparr>, w4))))))"

section \<open>The migration registry and the migration runner\<close>

text \<open>
  Modelled from the spec: \<^verbatim>\<open>execsql\<close> is defined in another file of the package, which is
  not among the sources. The spec calls its result a Migration Step: an identifier plus
  one or more SQL statements. The calls in \<^verbatim>\<open>mysql.go\<close> pass a name and one statement.
\<close>

record step =
  step_id :: string
  statements :: "string list"

definition execsql :: "string \<Rightarrow> string \<Rightarrow> step" where
  "execsql name raw = \<lparr>step_id = name, statements = [raw]\<rparr>"

text \<open>The argument list of \<^verbatim>\<open>migrator.New\<close> in \<^verbatim>\<open>mysql.go\<close>, in the order of the file.\<close>

definition mysql_migrations :: "step list" where
  "mysql_migrations =
     [execsql ''create_customer_name_watches''
        ''create table if not exists customer_name_watches(id varchar(40) primary key, name varchar(40), webhook varchar(512), auth_token varchar(128), created_at datetime, deleted_at datetime);'',
      execsql ''create_customer_status''
        ''create table if not exists customer_status(customer_id varchar(40), user_id varchar(40), note varchar(1024), status varchar(10), created_at datetime, deleted_at datetime);'',
      execsql ''create_customer_watches''
        ''create table if not exists customer_watches(id varchar(40) primary key, customer_id varchar(40), webhook varchar(512), auth_token varchar(128), created_at datetime, deleted_at datetime);'',
      execsql ''create_company_name_watches''
        ''create table if not exists company_name_watches(id varchar(40) primary key, name varchar(256), webhook varchar(512), auth_token varchar(128), created_at datetime, deleted_at datetime);'',
      execsql ''create_company_status''
        ''create table if not exists company_status(company_id varchar(40), user_id varchar(40), note varchar(1024), status varchar(10), created_at datetime, deleted_at datetime);'',
      execsql ''create_company_watches''
        ''create table if not exists company_watches(id varchar(40) primary key, company_id varchar(40), webhook varchar(512), auth_token varchar(128), created_at datetime, deleted_at datetime);'',
      execsql ''create_ofac_download_stats''
        ''create table if not exists ofac_download_stats(downloaded_at datetime, sdns integer, alt_names integer, addresses integer);'',
      execsql ''create_webhook_stats''
        ''create table if not exists webhook_stats(watch_id varchar(40), attempted_at datetime, status varchar(10));'',
      execsql ''add__denied_persons__to__ofac_download_stats''
        ''alter table ofac_download_stats add column denied_persons integer not null default 0;'']"

text \<open>
  Modelled from the spec: \<^verbatim>\<open>migrator.New\<close> belongs to the migration library and is not in
  the file. The spec's Registry is the ordered list of Steps, and a list in which two
  Steps share an id is rejected when the Registry is constructed. The check walks the
  ids from the front and reports the first one that occurs again further on.
\<close>

datatype migrator = Migrator (migrations: "step list")

fun first_duplicate :: "string list \<Rightarrow> string option" where
  "first_duplicate [] = None"
| "first_duplicate (x # xs) = (if x \<in> set xs then Some x else first_duplicate xs)"

definition New :: "step list \<Rightarrow> error + migrator" where
  "New ms =
     (case first_duplicate (map step_id ms) of
        Some d \<Rightarrow> Inl (Error (''duplicate migration id: '' @ d))
      | None \<Rightarrow> Inr (Migrator ms))"

definition mysqlMigrator :: "error + migrator" where
  "mysqlMigrator = New mysql_migrations"

text \<open>
  Modelled from the spec: the state the Migration Runner works on is kept by the database
  engine and the migration library, neither of which is in the file. It is the schema
  (whatever the engine keeps, left abstract), the Tracker (\<open>None\<close> while its table does
  not exist, else the set of recorded Step ids), and the ids of the Steps whose
  statements were handed to the engine so far, oldest first.
\<close>

record 'db database =
  schema :: 'db
  tracker :: "string set option"
  executed :: "string list"

text \<open>
  Modelled from the spec: the handle is opaque. It executes the statements of one Step as
  a single unit and reports an error or none; what a failed unit leaves behind in the
  schema is up to the handle.
\<close>

type_synonym 'db handle = "string list \<Rightarrow> 'db \<Rightarrow> 'db \<times> error option"

text \<open>
  Modelled from the spec: step 1 of the runner, the idempotent "create if absent" of the
  Tracker's table, and the reading of the Tracker as a set of ids.
\<close>

definition ensure_tracker :: "'db database \<Rightarrow> 'db database" where
  "ensure_tracker db = (case tracker db of None \<Rightarrow> db\<lparr>tracker := Some {}\<rparr> | Some t \<Rightarrow> db)"

definition recorded :: "'db database \<Rightarrow> string set" where
  "recorded db = (case tracker db of None \<Rightarrow> {} | Some t \<Rightarrow> t)"

text \<open>
  Modelled from the spec: \<^verbatim>\<open>Migrate\<close> belongs to the migration library and is not in the
  file. The spec's algorithm (Migration Runner): ensure the Tracker's table exists; then
  for each Step in Registry order, skip it if its id is in the Tracker; otherwise execute
  its statements as one unit, on success record the id, on failure return the error
  without attempting further Steps.
\<close>

fun apply_steps :: "'db handle \<Rightarrow> step list \<Rightarrow> 'db database \<Rightarrow> 'db database \<times> error option" where
  "apply_steps ex [] db = (db, None)"
| "apply_steps ex (s # ss) db =
     (if step_id s \<in> recorded db then apply_steps ex ss db
      else
        (case ex (statements s) (schema db) of
           (sch, Some err) \<Rightarrow>
             (db\<lparr>schema := sch, executed := executed db @ [step_id s]\<rparr>, Some err)
         | (sch, None) \<Rightarrow>
             apply_steps ex ss
               (db\<lparr>schema := sch,
                   tracker := Some (insert (step_id s) (recorded db)),
                   executed := executed db @ [step_id s]\<rparr>)))"

definition Migrate :: "'db handle \<Rightarrow> migrator \<Rightarrow> 'db database \<Rightarrow> 'db database \<times> error option" where
  "Migrate ex m db = apply_steps ex (migrations m) (ensure_tracker db)"

section \<open>Concrete environments and databases\<close>

text \<open>A fresh world, and an environment in which every external call succeeds.\<close>

definition world0 :: world where
  "world0 = \<lparr>history = [], open_dbs = {}, instances = {}, next_db = 0, next_resource = 0\<rparr>"

definition env_ok :: env where
  "env_ok =
     \<lparr>sql_open_err = (\<lambda>w drv d. None), ping_err = (\<lambda>w h. None), migrate_err = (\<lambda>w h. None),
      db_close_err = (\<lambda>w h. None), resource_close_err = (\<lambda>w r. None),
      new_pool_err = (\<lambda>w ep. None), run_err = (\<lambda>w opts. None),
      get_port = (\<lambda>r p. ''32768''), testing_short = False, docker_enabled = True,
      retry_budget = 3, deadline_err = Error ''reached retry deadline''\<rparr>"

text \<open>A server that cannot be reached, and a server on which the migration fails.\<close>

definition env_unreachable :: env where
  "env_unreachable = env_ok\<lparr>ping_err := (\<lambda>w h. Some (Error ''connection refused''))\<rparr>"

definition env_bad_migration :: env where
  "env_bad_migration = env_ok\<lparr>migrate_err := (\<lambda>w h. Some (Error ''migration failed''))\<rparr>"

definition test_connection :: mysql where
  "test_connection = mysqlConnection NopLogger ''moov'' ''secret'' ''tcp(localhost:3306)'' ''ofac''"

text \<open>
  Two engines whose schema is the list of statements they have executed: one accepts
  every statement, the other refuses \<^verbatim>\<open>alter\<close> statements and keeps what it executed
  before the refusal.
\<close>

definition empty_database :: "string list database" where
  "empty_database = \<lparr>schema = [], tracker = None, executed = []\<rparr>"

definition accepting :: "string list handle" where
  "accepting stmts sch = (sch @ stmts, None)"

definition no_alter :: "string list handle" where
  "no_alter stmts sch =
     (case dropWhile (\<lambda>q. take 5 q \<noteq> ''alter'') stmts of
        [] \<Rightarrow> (sch @ stmts, None)
      | q # rest \<Rightarrow>
          (sch @ takeWhile (\<lambda>q. take 5 q \<noteq> ''alter'') stmts, Some (Error ''alter not permitted'')))"

section \<open>The connection string\<close>

text \<open>
  Claim C8. For every user, password, address and database name, \<^verbatim>\<open>mysqlConnection\<close>
  builds the connection string \<^verbatim>\<open>user:pass@address/database?options\<close>, and the options are
  exactly these five, in this order: a connect timeout of 30 seconds, encryption (TLS)
  off, the UTF-8 multibyte character set, time parsing enabled, and the lenient
  \<^verbatim>\<open>ALLOW_INVALID_DATES\<close> mode. The logger is stored as given.
\<close>

theorem mysqlConnection_dsn:
  "dsn (mysqlConnection lg user pass address database) =
     user @ '':'' @ pass @ ''@'' @ address @ ''/'' @ database @ ''?'' @
     ''timeout=30s&tls=false&charset=utf8mb4&parseTime=true&sql_mode=ALLOW_INVALID_DATES''
   \<and> logger (mysqlConnection lg user pass address database) = lg
   \<and> dsn_options ''timeout=30s&tls=false&charset=utf8mb4&parseTime=true&sql_mode=ALLOW_INVALID_DATES'' =
       [(''timeout'', ''30s''), (''tls'', ''false''), (''charset'', ''utf8mb4''),
        (''parseTime'', ''true''), (''sql_mode'', ''ALLOW_INVALID_DATES'')]"
  by (simp add: mysqlConnection_def dsn_options_def key_value_def)

section \<open>Connect\<close>

text \<open>The four ways through \<^verbatim>\<open>Connect\<close>, one per \<^verbatim>\<open>return\<close> of the source.\<close>

lemma Connect_open_fails:
  assumes "sql_open_err e w ''mysql'' (dsn my) = Some err"
  shows "Connect e my w = (Inl err, w\<lparr>history := history w @ [CallOpen ''mysql'' (dsn my)]\<rparr>)"
  using assms by (simp add: Connect_def sql_Open_def logged_def)

lemma Connect_ping_fails:
  assumes "sql_open_err e w ''mysql'' (dsn my) = None"
    and "ping_err e (snd (sql_Open e ''mysql'' (dsn my) w)) (next_db w) = Some err"
  shows "Connect e my w =
           (Inl err, w\<lparr>open_dbs := insert (next_db w) (open_dbs w), next_db := Suc (next_db w),
                        history := history w @ [CallOpen ''mysql'' (dsn my), CallPing (next_db w)]\<rparr>)"
  using assms by (simp add: Connect_def sql_Open_def db_Ping_def logged_def)

lemma Connect_migrate_fails:
  assumes "sql_open_err e w ''mysql'' (dsn my) = None"
    and "ping_err e (snd (sql_Open e ''mysql'' (dsn my) w)) (next_db w) = None"
    and "migrate_err e (snd (db_Ping e (next_db w) (snd (sql_Open e ''mysql'' (dsn my) w)))) (next_db w) = Some err"
  shows "Connect e my w =
           (Inl err, w\<lparr>open_dbs := insert (next_db w) (open_dbs w), next_db := Suc (next_db w),
                        history := history w @ [CallOpen ''mysql'' (dsn my), CallPing (next_db w),
                                                CallMigrate (next_db w)]\<rparr>)"
  using assms
  by (simp add: Connect_def sql_Open_def db_Ping_def mysqlMigrator_Migrate_def logged_def)

lemma Connect_succeeds:
  assumes "sql_open_err e w ''mysql'' (dsn my) = None"
    and "ping_err e (snd (sql_Open e ''mysql'' (dsn my) w)) (next_db w) = None"
    and "migrate_err e (snd (db_Ping e (next_db w) (snd (sql_Open e ''mysql'' (dsn my) w)))) (next_db w) = None"
  shows "Connect e my w =
           (Inr (next_db w),
            w\<lparr>open_dbs := insert (next_db w) (open_dbs w), next_db := Suc (next_db w),
              history := history w @ [CallOpen ''mysql'' (dsn my), CallPing (next_db w),
                                      CallMigrate (next_db w)]\<rparr>)"
  using assms
  by (simp add: Connect_def sql_Open_def db_Ping_def mysqlMigrator_Migrate_def logged_def)

lemma take_calls:
  "take (Suc 0) [a, b, c] = [a]" "take 2 [a, b, c] = [a, b]" "take 3 [a, b, c] = [a, b, c]"
  by (simp_all add: numeral_2_eq_2)

text \<open>
  Claim C4. \<^verbatim>\<open>Connect\<close> works in a fixed order: it opens a handle with the connection
  string it was given, then pings that handle, then runs the migrations on it. The calls
  it makes are a non-empty initial part of \<open>[open, ping, migrate]\<close>: the ping is made
  exactly when the open succeeded, and the migration exactly when the open and the ping
  both succeeded. The handle is returned (open, for the caller to own) exactly when all
  three succeeded, and it is the handle that was opened; otherwise an error is returned.
\<close>

theorem Connect_order:
  "(let db = next_db w;
        w1 = snd (sql_Open e ''mysql'' (dsn my) w);
        w2 = snd (db_Ping e db w1);
        opened = (sql_open_err e w ''mysql'' (dsn my) = None);
        pinged = (ping_err e w1 db = None);
        migrated = (migrate_err e w2 db = None);
        calls = drop (length (history w)) (history (snd (Connect e my w)))
    in history (snd (Connect e my w)) = history w @ calls
     \<and> (\<exists>n. 1 \<le> n \<and> n \<le> 3 \<and> calls = take n [CallOpen ''mysql'' (dsn my), CallPing db, CallMigrate db])
     \<and> (CallPing db \<in> set calls \<longleftrightarrow> opened)
     \<and> (CallMigrate db \<in> set calls \<longleftrightarrow> opened \<and> pinged)
     \<and> (\<forall>h. (fst (Connect e my w) = Inr h \<and> h \<in> open_dbs (snd (Connect e my w)))
              \<longleftrightarrow> (h = db \<and> opened \<and> pinged \<and> migrated))
     \<and> (\<forall>h. fst (Connect e my w) = Inr h \<longleftrightarrow> (h = db \<and> opened \<and> pinged \<and> migrated))
     \<and> ((\<exists>err. fst (Connect e my w) = Inl err) \<longleftrightarrow> \<not> (opened \<and> pinged \<and> migrated)))"
proof (cases "sql_open_err e w ''mysql'' (dsn my)")
  case (Some err)
  have "\<exists>n. 1 \<le> n \<and> n \<le> 3 \<and>
          [CallOpen ''mysql'' (dsn my)] = take n [CallOpen ''mysql'' (dsn my), CallPing (next_db w), CallMigrate (next_db w)]"
    by (rule exI[of _ 1]) simp
  with Some show ?thesis
    by (simp add: Let_def Connect_open_fails[OF Some])
next
  case None
  note opened = this
  show ?thesis
  proof (cases "ping_err e (snd (sql_Open e ''mysql'' (dsn my) w)) (next_db w)")
    case (Some err)
    have "\<exists>n. 1 \<le> n \<and> n \<le> 3 \<and>
            [CallOpen ''mysql'' (dsn my), CallPing (next_db w)] =
              take n [CallOpen ''mysql'' (dsn my), CallPing (next_db w), CallMigrate (next_db w)]"
      by (rule exI[of _ 2]) (simp add: take_calls)
    with opened Some show ?thesis
      by (simp add: Let_def Connect_ping_fails[OF opened Some])
  next
    case None
    note pinged = this
    have ex: "\<exists>n. 1 \<le> n \<and> n \<le> 3 \<and>
            [CallOpen ''mysql'' (dsn my), CallPing (next_db w), CallMigrate (next_db w)] =
              take n [CallOpen ''mysql'' (dsn my), CallPing (next_db w), CallMigrate (next_db w)]"
      by (rule exI[of _ 3]) simp
    show ?thesis
    proof (cases "migrate_err e (snd (db_Ping e (next_db w) (snd (sql_Open e ''mysql'' (dsn my) w)))) (next_db w)")
      case (Some err)
      with opened pinged ex show ?thesis
        by (simp add: Let_def Connect_migrate_fails[OF opened pinged Some])
    next
      case None
      with opened pinged ex show ?thesis
        by (auto simp add: Let_def Connect_succeeds[OF opened pinged None])
    qed
  qed
qed

text \<open>
  Claim C3, as the code has it. If a step of \<^verbatim>\<open>Connect\<close> fails (the open, the ping or the
  migration, whichever fails first), \<^verbatim>\<open>Connect\<close> returns no handle and returns that step's
  error unchanged. \<^verbatim>\<open>Connect\<close> releases nothing: it makes no \<^verbatim>\<open>Close\<close> call on any failure
  path, so when the open succeeded and the ping or the migration failed, the handle it
  opened is still open afterwards.
\<close>

theorem Connect_failure:
  assumes "(case sql_open_err e w ''mysql'' (dsn my) of
              Some x \<Rightarrow> Some x
            | None \<Rightarrow>
                (case ping_err e (snd (sql_Open e ''mysql'' (dsn my) w)) (next_db w) of
                   Some x \<Rightarrow> Some x
                 | None \<Rightarrow>
                     migrate_err e (snd (db_Ping e (next_db w) (snd (sql_Open e ''mysql'' (dsn my) w))))
                       (next_db w))) = Some err"
  shows "fst (Connect e my w) = Inl err
       \<and> (\<forall>h. CallDBClose h \<notin> set (drop (length (history w)) (history (snd (Connect e my w)))))
       \<and> open_dbs (snd (Connect e my w)) =
           (if sql_open_err e w ''mysql'' (dsn my) = None then insert (next_db w) (open_dbs w)
            else open_dbs w)"
proof (cases "sql_open_err e w ''mysql'' (dsn my)")
  case (Some x)
  with assms have "x = err" by simp
  with Some show ?thesis by (simp add: Connect_open_fails)
next
  case None
  note opened = this
  show ?thesis
  proof (cases "ping_err e (snd (sql_Open e ''mysql'' (dsn my) w)) (next_db w)")
    case (Some x)
    with assms opened have "x = err" by simp
    with opened Some show ?thesis by (simp add: Connect_ping_fails)
  next
    case None
    with assms opened
    have "migrate_err e (snd (db_Ping e (next_db w) (snd (sql_Open e ''mysql'' (dsn my) w)))) (next_db w) = Some err"
      by simp
    with opened None show ?thesis by (simp add: Connect_migrate_fails)
  qed
qed

text \<open>
  The theorem at a server that accepts the open and refuses the ping: no handle, the
  ping's error, no \<^verbatim>\<open>Close\<close>, and handle 0 left open.
\<close>

theorem Connect_failure_witness:
  "fst (Connect env_unreachable test_connection world0) = Inl (Error ''connection refused'')
   \<and> (\<forall>h. CallDBClose h \<notin> set (history (snd (Connect env_unreachable test_connection world0))))
   \<and> open_dbs (snd (Connect env_unreachable test_connection world0)) = {0}"
  using Connect_failure[of env_unreachable world0 test_connection "Error ''connection refused''"]
  by (simp add: env_unreachable_def env_ok_def world0_def sql_Open_def logged_def)

text \<open>
  Claim C3 as stated says that a partially opened resource is released when a step
  fails. It is not: starting with no open handle, a \<^verbatim>\<open>Connect\<close> whose ping is refused
  returns the error with handle 0 open, after exactly two calls, the open and the ping.
\<close>

theorem Connect_release_counterexample:
  "fst (Connect env_unreachable test_connection world0) = Inl (Error ''connection refused'')
   \<and> open_dbs world0 = {}
   \<and> open_dbs (snd (Connect env_unreachable test_connection world0)) = {0}
   \<and> history (snd (Connect env_unreachable test_connection world0)) =
       [CallOpen ''mysql'' (dsn test_connection), CallPing 0]"
  by (simp add: Connect_def sql_Open_def db_Ping_def logged_def env_unreachable_def env_ok_def
      world0_def)

section \<open>Tearing down the test resource\<close>

text \<open>
  Claim C6, as the code has it. \<^verbatim>\<open>TestMySQLDB.Close\<close> tears its two parts down in the order
  of their acquisition: first the provisioned instance (\<^verbatim>\<open>r.container.Close()\<close>), then the
  connection handle (\<^verbatim>\<open>r.DB.Close()\<close>). It makes these two calls and no other, and
  afterwards neither part is live.
\<close>

theorem TestMySQLDB_Close_order:
  "history (snd (TestMySQLDB_Close e r w)) =
     history w @ [CallResourceClose (container r), CallDBClose (DB r)]
   \<and> instances (snd (TestMySQLDB_Close e r w)) = instances w - {container r}
   \<and> open_dbs (snd (TestMySQLDB_Close e r w)) = open_dbs w - {DB r}"
  by (simp add: TestMySQLDB_Close_def Resource_Close_def db_Close_def logged_def)

text \<open>
  Claim C6 as stated has the handle released first and the instance second. On a resource
  made of handle 0 and instance 0 the calls are the other way round.
\<close>

theorem TestMySQLDB_Close_order_counterexample:
  "history (snd (TestMySQLDB_Close env_ok \<lparr>DB = 0, container = 0\<rparr>
       (world0\<lparr>open_dbs := {0}, instances := {0}\<rparr>))) = [CallResourceClose 0, CallDBClose 0]
   \<and> history (snd (TestMySQLDB_Close env_ok \<lparr>DB = 0, container = 0\<rparr>
       (world0\<lparr>open_dbs := {0}, instances := {0}\<rparr>))) \<noteq> [CallDBClose 0, CallResourceClose 0]"
  by (simp add: TestMySQLDB_Close_def Resource_Close_def db_Close_def logged_def world0_def env_ok_def)

text \<open>
  Claim C10. \<^verbatim>\<open>TestMySQLDB.Close\<close> returns exactly what closing the connection handle
  returns (an error or nil), the handle being closed after the instance. Whatever the
  teardown of the instance reports is dropped: replacing it by any other report \<open>f\<close>
  leaves the result of \<^verbatim>\<open>Close\<close> unchanged.
\<close>

theorem TestMySQLDB_Close_result:
  "fst (TestMySQLDB_Close e r w) =
     db_close_err e (snd (Resource_Close e (container r) w)) (DB r)
   \<and> fst (TestMySQLDB_Close (e\<lparr>resource_close_err := f\<rparr>) r w) = fst (TestMySQLDB_Close e r w)"
  by (simp add: TestMySQLDB_Close_def Resource_Close_def db_Close_def logged_def)

text \<open>
  \<^verbatim>\<open>TestMySQLDB.Close\<close> keeps no note of having run. Called a second time it makes the same
  two calls again, on parts that are already released, and returns what the second
  \<^verbatim>\<open>r.DB.Close()\<close> returns.
\<close>

lemma TestMySQLDB_Close_twice:
  "history (snd (TestMySQLDB_Close e r (snd (TestMySQLDB_Close e r w)))) =
     history w @ [CallResourceClose (container r), CallDBClose (DB r),
                  CallResourceClose (container r), CallDBClose (DB r)]
   \<and> fst (TestMySQLDB_Close e r (snd (TestMySQLDB_Close e r w))) =
       db_close_err e
         (snd (Resource_Close e (container r) (snd (TestMySQLDB_Close e r w)))) (DB r)"
  by (simp add: TestMySQLDB_Close_def Resource_Close_def db_Close_def logged_def)

section \<open>Failures of the ephemeral provider\<close>

text \<open>
  When the instance never answers the probe, \<^verbatim>\<open>CreateTestMySQLDB\<close> closes the instance and
  then fails the test: the last call is the instance's \<^verbatim>\<open>Close\<close>.
\<close>

lemma CreateTestMySQLDB_probe_failure:
  assumes "\<not> testing_short e" and "docker_enabled e"
    and "dockertest_NewPool e [] w = (None, w1)"
    and "pool_RunWithOptions e
           \<lparr>Repository = ''mysql'', Tag = ''8'',
            Env = [''MYSQL_USER=moov'', ''MYSQL_PASSWORD=secret'',
                   ''MYSQL_ROOT_PASSWORD=secret'', ''MYSQL_DATABASE=ofac'']\<rparr> w1 = (Inr res, w2)"
    and "Retry (retry_budget e) (deadline_err e)
           (probe e (Sprintf ''moov:secret@tcp(localhost:%s)/ofac'' [get_port e res ''3306/tcp''])) w2 = (Some err, w3)"
  shows "CreateTestMySQLDB e w =
           (Fatal err, w3\<lparr>instances := instances w3 - {res},
                          history := history w3 @ [CallResourceClose res]\<rparr>)"
  using assms by (simp add: CreateTestMySQLDB_def Resource_Close_def logged_def)

text \<open>
  When the instance answers the probe and \<^verbatim>\<open>Connect\<close> then fails, the test is failed with
  the world exactly as \<^verbatim>\<open>Connect\<close> left it: no call follows, the instance's \<^verbatim>\<open>Close\<close>
  included.
\<close>

lemma CreateTestMySQLDB_connect_failure:
  assumes "\<not> testing_short e" and "docker_enabled e"
    and "dockertest_NewPool e [] w = (None, w1)"
    and "pool_RunWithOptions e
           \<lparr>Repository = ''mysql'', Tag = ''8'',
            Env = [''MYSQL_USER=moov'', ''MYSQL_PASSWORD=secret'',
                   ''MYSQL_ROOT_PASSWORD=secret'', ''MYSQL_DATABASE=ofac'']\<rparr> w1 = (Inr res, w2)"
    and "Retry (retry_budget e) (deadline_err e)
           (probe e (Sprintf ''moov:secret@tcp(localhost:%s)/ofac'' [get_port e res ''3306/tcp''])) w2 = (None, w3)"
    and "Connect e (mysqlConnection NopLogger ''moov'' ''secret''
                      (Sprintf ''tcp(localhost:%s)'' [get_port e res ''3306/tcp'']) ''ofac'') w3 = (Inl err, w4)"
  shows "CreateTestMySQLDB e w = (Fatal err, w4)"
  using assms by (simp add: CreateTestMySQLDB_def)

text \<open>
  Claim C7 says that on every failure of the provider the instance created so far is
  released before the error propagates. The code at a failing bootstrap: the instance
  starts and answers the first probe, the migration inside \<^verbatim>\<open>Connect\<close> fails. The test is
  failed with the migration's error, nothing is returned, and instance 0 is still live:
  its \<^verbatim>\<open>Close\<close> was never called.
\<close>

theorem CreateTestMySQLDB_bootstrap_failure:
  "fst (CreateTestMySQLDB env_bad_migration world0) = Fatal (Error ''migration failed'')
   \<and> instances (snd (CreateTestMySQLDB env_bad_migration world0)) = {0}
   \<and> CallResourceClose 0 \<notin> set (history (snd (CreateTestMySQLDB env_bad_migration world0)))"
  by (simp add: CreateTestMySQLDB_def dockertest_NewPool_def pool_RunWithOptions_def probe_def
      Connect_def sql_Open_def db_Ping_def db_Close_def mysqlMigrator_Migrate_def Resource_Close_def
      logged_def env_bad_migration_def env_ok_def world0_def numeral_3_eq_3)

section \<open>The registry\<close>

lemma first_duplicate_None: "first_duplicate xs = None \<longleftrightarrow> distinct xs"
  by (induction xs) auto

text \<open>
  Claim C5. Constructing a Registry succeeds exactly when the ids of its Steps are
  pairwise different, and then the Registry holds the Steps as given; with two Steps
  sharing an id the construction fails. The construction is a function of the list of
  Steps alone: it takes no handle and no database, so it fails before any database is
  touched. The nine Steps of \<^verbatim>\<open>mysql.go\<close> have pairwise different ids, and \<^verbatim>\<open>mysqlMigrator\<close>
  is constructed from them.
\<close>

theorem New_rejects_duplicates:
  "(New ms = Inr (Migrator ms) \<longleftrightarrow> distinct (map step_id ms))
   \<and> ((\<exists>err. New ms = Inl err) \<longleftrightarrow> \<not> distinct (map step_id ms))
   \<and> mysqlMigrator = Inr (Migrator mysql_migrations)
   \<and> distinct (map step_id mysql_migrations)
   \<and> length mysql_migrations = 9"
proof -
  have d: "distinct (map step_id mysql_migrations)"
    by (simp add: mysql_migrations_def execsql_def)
  have a: "New ms = Inr (Migrator ms) \<longleftrightarrow> distinct (map step_id ms)" for ms
    using first_duplicate_None[of "map step_id ms"]
    by (auto simp: New_def split: option.splits)
  have b: "(\<exists>err. New ms = Inl err) \<longleftrightarrow> \<not> distinct (map step_id ms)" for ms
    using first_duplicate_None[of "map step_id ms"]
    by (auto simp: New_def split: option.splits)
  have c: "mysqlMigrator = Inr (Migrator mysql_migrations)"
    unfolding mysqlMigrator_def using a[of mysql_migrations] d by simp
  have l: "length mysql_migrations = 9" by (simp add: mysql_migrations_def)
  from a b c d l show ?thesis by blast
qed

section \<open>The migration runner\<close>

lemma recorded_ensure_tracker: "recorded (ensure_tracker db) = recorded db"
  by (simp add: recorded_def ensure_tracker_def split: option.splits)

lemma tracker_ensure_tracker: "tracker (ensure_tracker db) = Some (recorded db)"
  by (simp add: recorded_def ensure_tracker_def split: option.splits)

lemma ensure_tracker_fields:
  "schema (ensure_tracker db) = schema db" "executed (ensure_tracker db) = executed db"
  by (simp_all add: ensure_tracker_def split: option.splits)

lemma ensure_tracker_idem: "tracker db = Some t \<Longrightarrow> ensure_tracker db = db"
  by (simp add: ensure_tracker_def)

lemma apply_steps_success:
  "apply_steps ex ss db = (db', None) \<Longrightarrow>
     recorded db' = recorded db \<union> step_id ` set ss
   \<and> (tracker db \<noteq> None \<longrightarrow> tracker db' \<noteq> None)
   \<and> (\<exists>rest. executed db' = executed db @ rest \<and> set rest \<subseteq> step_id ` set ss)"
proof (induction ss arbitrary: db)
  case Nil
  then show ?case by simp
next
  case (Cons s ss)
  show ?case
  proof (cases "step_id s \<in> recorded db")
    case True
    with Cons.prems have "apply_steps ex ss db = (db', None)" by simp
    from Cons.IH[OF this] True show ?thesis by auto
  next
    case False
    obtain sch r where ex: "ex (statements s) (schema db) = (sch, r)" by (cases "ex (statements s) (schema db)")
    with Cons.prems False have r: "r = None" by (cases r) auto
    let ?db1 = "db\<lparr>schema := sch, tracker := Some (insert (step_id s) (recorded db)),
                    executed := executed db @ [step_id s]\<rparr>"
    from Cons.prems False ex r have "apply_steps ex ss ?db1 = (db', None)" by simp
    from Cons.IH[OF this] have
      "recorded db' = recorded ?db1 \<union> step_id ` set ss" "tracker db' \<noteq> None"
      "\<exists>rest. executed db' = executed ?db1 @ rest \<and> set rest \<subseteq> step_id ` set ss"
      by auto
    moreover have "recorded ?db1 = insert (step_id s) (recorded db)" by (simp add: recorded_def)
    ultimately show ?thesis by auto
  qed
qed

lemma apply_steps_skip:
  "step_id ` set ss \<subseteq> recorded db \<Longrightarrow> apply_steps ex ss db = (db, None)"
  by (induction ss) auto

lemma apply_steps_executed:
  "apply_steps ex ss db = (db', r) \<Longrightarrow> \<exists>more. executed db' = executed db @ more"
proof (induction ss arbitrary: db)
  case Nil
  then show ?case by simp
next
  case (Cons s ss)
  show ?case
  proof (cases "step_id s \<in> recorded db")
    case True
    with Cons show ?thesis by simp
  next
    case False
    obtain sch q where ex: "ex (statements s) (schema db) = (sch, q)" by (cases "ex (statements s) (schema db)")
    show ?thesis
    proof (cases q)
      case None
      let ?db1 = "db\<lparr>schema := sch, tracker := Some (insert (step_id s) (recorded db)),
                      executed := executed db @ [step_id s]\<rparr>"
      from Cons.prems False ex None have "apply_steps ex ss ?db1 = (db', r)" by simp
      from Cons.IH[OF this] show ?thesis by auto
    next
      case (Some err)
      with Cons.prems False ex show ?thesis by auto
    qed
  qed
qed

lemma apply_steps_append:
  "apply_steps ex (pre @ post) db =
     (case apply_steps ex pre db of
        (db1, None) \<Rightarrow> apply_steps ex post db1
      | (db1, Some err) \<Rightarrow> (db1, Some err))"
  by (induction pre arbitrary: db) (auto split: prod.splits option.splits)

lemma apply_steps_failure:
  "apply_steps ex ss db = (db', Some err) \<Longrightarrow>
     \<exists>pre s post db1.
        ss = pre @ s # post
      \<and> apply_steps ex pre db = (db1, None)
      \<and> step_id s \<notin> recorded db1
      \<and> ex (statements s) (schema db1) = (schema db', Some err)
      \<and> db' = db1\<lparr>schema := schema db', executed := executed db1 @ [step_id s]\<rparr>"
proof (induction ss arbitrary: db)
  case Nil
  then show ?case by simp
next
  case (Cons s ss)
  show ?case
  proof (cases "step_id s \<in> recorded db")
    case True
    with Cons.prems have "apply_steps ex ss db = (db', Some err)" by simp
    from Cons.IH[OF this] obtain pre t post db1 where
      d: "ss = pre @ t # post" "apply_steps ex pre db = (db1, None)" "step_id t \<notin> recorded db1"
         "ex (statements t) (schema db1) = (schema db', Some err)"
         "db' = db1\<lparr>schema := schema db', executed := executed db1 @ [step_id t]\<rparr>"
      by blast
    have "s # ss = (s # pre) @ t # post" using d(1) by simp
    moreover have "apply_steps ex (s # pre) db = (db1, None)" using True d(2) by simp
    ultimately show ?thesis using d(3,4,5) by blast
  next
    case False
    obtain sch q where ex: "ex (statements s) (schema db) = (sch, q)" by (cases "ex (statements s) (schema db)")
    show ?thesis
    proof (cases q)
      case (Some e2)
      with Cons.prems False ex
      have "db' = db\<lparr>schema := sch, executed := executed db @ [step_id s]\<rparr>" "e2 = err" by auto
      then have "s # ss = [] @ s # ss \<and> apply_steps ex [] db = (db, None) \<and> step_id s \<notin> recorded db
         \<and> ex (statements s) (schema db) = (schema db', Some err)
         \<and> db' = db\<lparr>schema := schema db', executed := executed db @ [step_id s]\<rparr>"
        using False ex Some by simp
      then show ?thesis by blast
    next
      case None
      let ?db1 = "db\<lparr>schema := sch, tracker := Some (insert (step_id s) (recorded db)),
                      executed := executed db @ [step_id s]\<rparr>"
      from Cons.prems False ex None have "apply_steps ex ss ?db1 = (db', Some err)" by simp
      from Cons.IH[OF this] obtain pre t post db1 where
        d: "ss = pre @ t # post" "apply_steps ex pre ?db1 = (db1, None)" "step_id t \<notin> recorded db1"
           "ex (statements t) (schema db1) = (schema db', Some err)"
           "db' = db1\<lparr>schema := schema db', executed := executed db1 @ [step_id t]\<rparr>"
        by blast
      have "s # ss = (s # pre) @ t # post" using d(1) by simp
      moreover have "apply_steps ex (s # pre) db = (db1, None)" using False ex None d(2) by simp
      ultimately show ?thesis using d(3,4,5) by blast
    qed
  qed
qed

text \<open>
  Claim C1. Let \<^verbatim>\<open>Migrate\<close> return an error. Then the Registry splits into the Steps before
  the failing one (\<open>pre\<close>, Steps 1..k-1), the failing Step \<open>s\<close> (Step k) and the Steps
  after it (\<open>post\<close>), such that: the Steps of \<open>pre\<close> ran without error; the error returned
  is the one the handle reported for \<open>s\<close>; the Tracker afterwards is the Tracker before
  plus the ids of \<open>pre\<close>, so Steps 1..k-1 are recorded and the call recorded nothing else;
  the id of \<open>s\<close> is not recorded; with unique ids, no Step from \<open>s\<close> on is recorded unless
  a later one already was before the call; the last unit handed to the handle is \<open>s\<close>,
  and every unit before it in this call is a Step of \<open>pre\<close>, so no Step after \<open>s\<close> was
  attempted; and the first unit a subsequent \<^verbatim>\<open>Migrate\<close> hands to the handle is \<open>s\<close> again.
\<close>

theorem Migrate_failure_isolation:
  assumes "Migrate ex m db = (db', Some err)"
  shows "\<exists>pre s post db1.
       migrations m = pre @ s # post
     \<and> apply_steps ex pre (ensure_tracker db) = (db1, None)
     \<and> snd (ex (statements s) (schema db1)) = Some err
     \<and> tracker db' = Some (recorded db \<union> step_id ` set pre)
     \<and> step_id s \<notin> recorded db'
     \<and> (distinct (map step_id (migrations m)) \<and> recorded db \<inter> step_id ` set post = {}
          \<longrightarrow> recorded db' \<inter> step_id ` set (s # post) = {})
     \<and> (\<exists>rest. executed db' = executed db @ rest @ [step_id s] \<and> set rest \<subseteq> step_id ` set pre)
     \<and> (\<exists>more. executed (fst (Migrate ex m db')) = executed db' @ step_id s # more)"
proof -
  from assms have "apply_steps ex (migrations m) (ensure_tracker db) = (db', Some err)"
    by (simp add: Migrate_def)
  from apply_steps_failure[OF this] obtain pre s post db1 where
    split: "migrations m = pre @ s # post"
    and pre: "apply_steps ex pre (ensure_tracker db) = (db1, None)"
    and fresh: "step_id s \<notin> recorded db1"
    and fails: "ex (statements s) (schema db1) = (schema db', Some err)"
    and db': "db' = db1\<lparr>schema := schema db', executed := executed db1 @ [step_id s]\<rparr>"
    by blast
  from apply_steps_success[OF pre] obtain rest where
    rec1: "recorded db1 = recorded db \<union> step_id ` set pre"
    and trk1: "tracker db1 \<noteq> None"
    and exe1: "executed db1 = executed db @ rest" "set rest \<subseteq> step_id ` set pre"
    by (auto simp: recorded_ensure_tracker tracker_ensure_tracker ensure_tracker_fields)
  have trk_eq: "tracker db' = tracker db1"
    by (subst db') simp
  then have rec_eq: "recorded db' = recorded db1"
    by (simp add: recorded_def)
  have trk': "tracker db' = Some (recorded db \<union> step_id ` set pre)"
    using trk1 rec1 trk_eq by (auto simp: recorded_def split: option.splits)
  have exe': "executed db' = executed db @ rest @ [step_id s]"
    using exe1(1) by (subst db') simp
  have later: "recorded db' \<inter> step_id ` set (s # post) = {}"
    if "distinct (map step_id (migrations m))" "recorded db \<inter> step_id ` set post = {}"
  proof -
    from that(1) split have "step_id ` set pre \<inter> step_id ` set (s # post) = {}"
      by auto
    with that(2) fresh rec1 rec_eq show ?thesis by auto
  qed
  have again: "\<exists>more. executed (fst (Migrate ex m db')) = executed db' @ step_id s # more"
  proof -
    have e: "ensure_tracker db' = db'" using trk' by (rule ensure_tracker_idem)
    have "step_id ` set pre \<subseteq> recorded db'" using rec1 rec_eq by auto
    then have skip: "apply_steps ex pre db' = (db', None)" by (rule apply_steps_skip)
    have m: "Migrate ex m db' = apply_steps ex (s # post) db'"
      by (simp add: Migrate_def e split apply_steps_append skip)
    have fresh': "step_id s \<notin> recorded db'" using fresh rec_eq by simp
    obtain sch q where ex: "ex (statements s) (schema db') = (sch, q)"
      by (cases "ex (statements s) (schema db')")
    show ?thesis
    proof (cases q)
      case (Some e2)
      with m fresh' ex show ?thesis by simp
    next
      case None
      let ?db2 = "db'\<lparr>schema := sch, tracker := Some (insert (step_id s) (recorded db')),
                      executed := executed db' @ [step_id s]\<rparr>"
      obtain db3 r where run: "apply_steps ex post ?db2 = (db3, r)"
        by (cases "apply_steps ex post ?db2")
      from apply_steps_executed[OF run] obtain more where "executed db3 = executed ?db2 @ more"
        by blast
      moreover have "Migrate ex m db' = (db3, r)" using m fresh' ex None run by simp
      ultimately show ?thesis by simp
    qed
  qed
  from fails have "snd (ex (statements s) (schema db1)) = Some err" by simp
  with split pre trk' fresh rec_eq later exe' exe1(2) again show ?thesis
    by (intro exI[of _ pre] exI[of _ s] exI[of _ post] exI[of _ db1]) auto
qed

text \<open>
  The theorem on the registry of \<^verbatim>\<open>mysql.go\<close>, an empty database and an engine that
  refuses \<^verbatim>\<open>alter\<close>: the run fails at the ninth Step, the first eight are recorded, and all
  nine were attempted in order.
\<close>

theorem Migrate_failure_isolation_witness:
  "snd (Migrate no_alter (Migrator mysql_migrations) empty_database) = Some (Error ''alter not permitted'')
   \<and> recorded (fst (Migrate no_alter (Migrator mysql_migrations) empty_database)) =
       step_id ` set (take 8 mysql_migrations)
   \<and> executed (fst (Migrate no_alter (Migrator mysql_migrations) empty_database)) =
       map step_id mysql_migrations
   \<and> (\<exists>pre s post db1.
       migrations (Migrator mysql_migrations) = pre @ s # post
     \<and> apply_steps no_alter pre (ensure_tracker empty_database) = (db1, None)
     \<and> snd (no_alter (statements s) (schema db1)) = Some (Error ''alter not permitted'')
     \<and> tracker (fst (Migrate no_alter (Migrator mysql_migrations) empty_database)) =
         Some (recorded empty_database \<union> step_id ` set pre)
     \<and> step_id s \<notin> recorded (fst (Migrate no_alter (Migrator mysql_migrations) empty_database))
     \<and> (distinct (map step_id (migrations (Migrator mysql_migrations)))
          \<and> recorded empty_database \<inter> step_id ` set post = {}
          \<longrightarrow> recorded (fst (Migrate no_alter (Migrator mysql_migrations) empty_database))
                \<inter> step_id ` set (s # post) = {})
     \<and> (\<exists>rest. executed (fst (Migrate no_alter (Migrator mysql_migrations) empty_database)) =
                  executed empty_database @ rest @ [step_id s]
               \<and> set rest \<subseteq> step_id ` set pre)
     \<and> (\<exists>more. executed (fst (Migrate no_alter (Migrator mysql_migrations)
                                  (fst (Migrate no_alter (Migrator mysql_migrations) empty_database)))) =
                  executed (fst (Migrate no_alter (Migrator mysql_migrations) empty_database))
                    @ step_id s # more))"
proof (intro conjI)
  show ev: "snd (Migrate no_alter (Migrator mysql_migrations) empty_database)
              = Some (Error ''alter not permitted'')"
    by (simp add: Migrate_def mysql_migrations_def execsql_def no_alter_def empty_database_def
        ensure_tracker_def recorded_def)
  then have h: "Migrate no_alter (Migrator mysql_migrations) empty_database =
      (fst (Migrate no_alter (Migrator mysql_migrations) empty_database),
       Some (Error ''alter not permitted''))"
    by (simp add: prod_eq_iff)
  show "recorded (fst (Migrate no_alter (Migrator mysql_migrations) empty_database)) =
       step_id ` set (take 8 mysql_migrations)"
    by (auto simp add: Migrate_def mysql_migrations_def execsql_def no_alter_def empty_database_def
        ensure_tracker_def recorded_def)
  show "executed (fst (Migrate no_alter (Migrator mysql_migrations) empty_database)) =
       map step_id mysql_migrations"
    by (simp add: Migrate_def mysql_migrations_def execsql_def no_alter_def empty_database_def
        ensure_tracker_def recorded_def)
  show "\<exists>pre s post db1.
       migrations (Migrator mysql_migrations) = pre @ s # post
     \<and> apply_steps no_alter pre (ensure_tracker empty_database) = (db1, None)
     \<and> snd (no_alter (statements s) (schema db1)) = Some (Error ''alter not permitted'')
     \<and> tracker (fst (Migrate no_alter (Migrator mysql_migrations) empty_database)) =
         Some (recorded empty_database \<union> step_id ` set pre)
     \<and> step_id s \<notin> recorded (fst (Migrate no_alter (Migrator mysql_migrations) empty_database))
     \<and> (distinct (map step_id (migrations (Migrator mysql_migrations)))
          \<and> recorded empty_database \<inter> step_id ` set post = {}
          \<longrightarrow> recorded (fst (Migrate no_alter (Migrator mysql_migrations) empty_database))
                \<inter> step_id ` set (s # post) = {})
     \<and> (\<exists>rest. executed (fst (Migrate no_alter (Migrator mysql_migrations) empty_database)) =
                  executed empty_database @ rest @ [step_id s]
               \<and> set rest \<subseteq> step_id ` set pre)
     \<and> (\<exists>more. executed (fst (Migrate no_alter (Migrator mysql_migrations)
                                  (fst (Migrate no_alter (Migrator mysql_migrations) empty_database)))) =
                  executed (fst (Migrate no_alter (Migrator mysql_migrations) empty_database))
                    @ step_id s # more)"
    by (rule Migrate_failure_isolation[OF h])
qed

text \<open>
  Claim C2. When \<^verbatim>\<open>Migrate\<close> has returned without error, calling it again on the same
  handle returns without error and changes nothing: the schema and the Tracker are the
  ones the first call left, and no unit is handed to the handle, so the second call
  applies zero Steps.
\<close>

theorem Migrate_idempotent:
  assumes "Migrate ex m db = (db1, None)"
  shows "Migrate ex m db1 = (db1, None)
       \<and> schema (fst (Migrate ex m db1)) = schema db1
       \<and> tracker (fst (Migrate ex m db1)) = tracker db1
       \<and> executed (fst (Migrate ex m db1)) = executed db1"
proof -
  from assms have run: "apply_steps ex (migrations m) (ensure_tracker db) = (db1, None)"
    by (simp add: Migrate_def)
  from apply_steps_success[OF run] have
    all: "step_id ` set (migrations m) \<subseteq> recorded db1" and "tracker db1 \<noteq> None"
    by (auto simp: tracker_ensure_tracker)
  then obtain t where "tracker db1 = Some t" by auto
  then have "ensure_tracker db1 = db1" by (rule ensure_tracker_idem)
  with apply_steps_skip[OF all, of ex] have "Migrate ex m db1 = (db1, None)"
    by (simp add: Migrate_def)
  then show ?thesis by simp
qed

text \<open>
  The theorem on the registry of \<^verbatim>\<open>mysql.go\<close>, an empty database and an engine that
  accepts every statement: the first call executes the nine Steps in order, the second
  call leaves the database as it is.
\<close>

theorem Migrate_idempotent_witness:
  "snd (Migrate accepting (Migrator mysql_migrations) empty_database) = None
   \<and> executed (fst (Migrate accepting (Migrator mysql_migrations) empty_database)) =
       map step_id mysql_migrations
   \<and> Migrate accepting (Migrator mysql_migrations)
        (fst (Migrate accepting (Migrator mysql_migrations) empty_database)) =
      (fst (Migrate accepting (Migrator mysql_migrations) empty_database), None)"
proof (intro conjI)
  show ev: "snd (Migrate accepting (Migrator mysql_migrations) empty_database) = None"
    by (simp add: Migrate_def mysql_migrations_def execsql_def accepting_def empty_database_def
        ensure_tracker_def recorded_def)
  then have h: "Migrate accepting (Migrator mysql_migrations) empty_database =
      (fst (Migrate accepting (Migrator mysql_migrations) empty_database), None)"
    by (simp add: prod_eq_iff)
  show "executed (fst (Migrate accepting (Migrator mysql_migrations) empty_database)) =
       map step_id mysql_migrations"
    by (simp add: Migrate_def mysql_migrations_def execsql_def accepting_def empty_database_def
        ensure_tracker_def recorded_def)
  from Migrate_idempotent[OF h]
  show "Migrate accepting (Migrator mysql_migrations)
        (fst (Migrate accepting (Migrator mysql_migrations) empty_database)) =
      (fst (Migrate accepting (Migrator mysql_migrations) empty_database), None)"
    by (rule conjunct1)
qed

end
